theory Spec2Isabelle
  imports Main "HOL-Library.Finite_Map"
begin

section \<open>JavaScript values\<close>

text \<open>
  The server (\<^verbatim>\<open>server.js\<close>) is an Express application over an in-memory array of
  product objects. Request payloads and stored products are JSON objects; an object is a
  finite map from property names to values, so that the object spread \<^verbatim>\<open>{...a, ...b}\<close> is
  the right-biased union \<open>a ++\<^sub>f b\<close>. A property that is absent reads as \<^verbatim>\<open>undefined\<close>,
  here \<open>None\<close>. Numbers are the rationals a JSON text denotes (rounding to doubles is not
  represented), strings are byte strings and case conversion acts on ASCII letters only.
\<close>

datatype json =
    JNull
  | JBool bool
  | JNum rat
  | JStr string
  | JArr "json list"
  | JObj "(string, json) fmap"

type_synonym obj = "(string, json) fmap"

text \<open>Truthiness (\<^verbatim>\<open>!x\<close> is its negation) and \<^verbatim>\<open>typeof\<close>.\<close>

fun truthy :: "json option \<Rightarrow> bool" where
  "truthy None = False"
| "truthy (Some JNull) = False"
| "truthy (Some (JBool b)) = b"
| "truthy (Some (JNum r)) = (r \<noteq> 0)"
| "truthy (Some (JStr s)) = (s \<noteq> [])"
| "truthy (Some (JArr xs)) = True"
| "truthy (Some (JObj m)) = True"

fun typeof :: "json option \<Rightarrow> string" where
  "typeof None = ''undefined''"
| "typeof (Some JNull) = ''object''"
| "typeof (Some (JBool b)) = ''boolean''"
| "typeof (Some (JNum r)) = ''number''"
| "typeof (Some (JStr s)) = ''string''"
| "typeof (Some (JArr xs)) = ''object''"
| "typeof (Some (JObj m)) = ''object''"

text \<open>\<^verbatim>\<open>x <= 0\<close> for a value already known to be a number.\<close>

fun le_zero :: "json option \<Rightarrow> bool" where
  "le_zero (Some (JNum r)) = (r \<le> 0)"
| "le_zero _ = False"

text \<open>Truthiness of a header or query-string value: absent and empty are falsy.\<close>

fun truthy_str :: "string option \<Rightarrow> bool" where
  "truthy_str None = False"
| "truthy_str (Some s) = (s \<noteq> [])"

definition lower_char :: "char \<Rightarrow> char" where
  "lower_char c =
     (case map_of (zip ''ABCDEFGHIJKLMNOPQRSTUVWXYZ'' ''abcdefghijklmnopqrstuvwxyz'') c of
        Some d \<Rightarrow> d
      | None \<Rightarrow> c)"

definition toLowerCase :: "string \<Rightarrow> string" where
  "toLowerCase s = map lower_char s"

text \<open>\<^verbatim>\<open>s.includes(t)\<close>: \<open>t\<close> occurs in \<open>s\<close> as a contiguous substring.\<close>

fun str_includes :: "string \<Rightarrow> string \<Rightarrow> bool" where
  "str_includes [] t = (t = [])"
| "str_includes (c # s) t = (take (length t) (c # s) = t \<or> str_includes s t)"

text \<open>
  \<^verbatim>\<open>parseInt(x)\<close> without a radix: leading white space is skipped, then an optional
  sign, then an optional \<^verbatim>\<open>0x\<close> prefix selecting radix 16, then the longest run of digits.
  \<open>None\<close> is \<^verbatim>\<open>NaN\<close>. The result is the exact integer (a double is exact up to \<open>2^53\<close>).
\<close>

definition is_white_space :: "char \<Rightarrow> bool" where
  "is_white_space c = (c \<in> set [CHR 0x20, CHR 0x09, CHR 0x0A, CHR 0x0B, CHR 0x0C, CHR 0x0D])"

definition digit_value :: "char \<Rightarrow> nat option" where
  "digit_value c = map_of (zip ''0123456789abcdef'' [0..<16]) (lower_char c)"

definition is_digit :: "nat \<Rightarrow> char \<Rightarrow> bool" where
  "is_digit radix c = (case digit_value c of Some d \<Rightarrow> d < radix | None \<Rightarrow> False)"

definition digits_value :: "nat \<Rightarrow> string \<Rightarrow> nat" where
  "digits_value radix ds =
     foldl (\<lambda>a c. a * radix + (case digit_value c of Some d \<Rightarrow> d | None \<Rightarrow> 0)) 0 ds"

definition parseInt :: "string option \<Rightarrow> int option" where
  "parseInt input =
     (case input of
        None \<Rightarrow> None
      | Some str \<Rightarrow>
          let s = dropWhile is_white_space str;
              negative = (take 1 s = ''-'');
              s1 = (if take 1 s = ''-'' \<or> take 1 s = ''+'' then drop 1 s else s);
              hex = (toLowerCase (take 2 s1) = ''0x'');
              radix = (if hex then 16 else 10);
              s2 = (if hex then drop 2 s1 else s1);
              ds = takeWhile (is_digit radix) s2
          in if ds = [] then None
             else Some ((if negative then - 1 else 1) * int (digits_value radix ds)))"

text \<open>\<^verbatim>\<open>n || d\<close> on a number: \<^verbatim>\<open>NaN\<close> and \<open>0\<close> are falsy.\<close>

definition or_default :: "int option \<Rightarrow> int \<Rightarrow> int" where
  "or_default n d = (case n of None \<Rightarrow> d | Some v \<Rightarrow> if v = 0 then d else v)"

text \<open>
  \<^verbatim>\<open>xs.slice(start, end)\<close>: a negative index counts from the end of the array, both
  indices are clamped to \<open>[0, length]\<close>, and an empty range gives the empty array.
\<close>

definition slice :: "'a list \<Rightarrow> int \<Rightarrow> int \<Rightarrow> 'a list" where
  "slice xs start endIndex =
     (let len = int (length xs);
          k = (if start < 0 then max (len + start) 0 else min start len);
          final = (if endIndex < 0 then max (len + endIndex) 0 else min endIndex len)
      in take (nat (final - k)) (drop (nat k) xs))"

text \<open>\<^verbatim>\<open>xs.findIndex(f)\<close>, with \<open>None\<close> for \<open>-1\<close>.\<close>

fun findIndex :: "('a \<Rightarrow> bool) \<Rightarrow> 'a list \<Rightarrow> nat option" where
  "findIndex f [] = None"
| "findIndex f (x # xs) = (if f x then Some 0 else map_option Suc (findIndex f xs))"

text \<open>
  Writing a property whose value may be \<^verbatim>\<open>undefined\<close>: a property holding
  \<^verbatim>\<open>undefined\<close> reads, and serialises to JSON, as an absent one.
\<close>

fun assign :: "string \<Rightarrow> json option \<Rightarrow> obj \<Rightarrow> obj" where
  "assign k None m = fmdrop k m"
| "assign k (Some v) m = fmupd k v m"

section \<open>Errors, requests and responses\<close>

text \<open>
  An error object carries \<^verbatim>\<open>name\<close>, \<^verbatim>\<open>message\<close> and, for the three custom classes,
  \<^verbatim>\<open>statusCode\<close>. A \<^verbatim>\<open>TypeError\<close> raised by the runtime has no \<^verbatim>\<open>statusCode\<close>.
\<close>

datatype error = Error (name: string) (message: string) (statusCode: "nat option")

definition NotFoundError :: "string \<Rightarrow> error" where
  "NotFoundError msg = Error ''NotFoundError'' msg (Some 404)"

definition ValidationError :: "string \<Rightarrow> error" where
  "ValidationError msg = Error ''ValidationError'' msg (Some 400)"

definition AuthError :: "string \<Rightarrow> error" where
  "AuthError msg = Error ''AuthError'' msg (Some 401)"

definition TypeError :: "string \<Rightarrow> error" where
  "TypeError msg = Error ''TypeError'' msg None"

datatype verb = GET | POST | PUT | DELETE | PATCH

text \<open>
  A request as the handlers see it: \<open>meth\<close> is the HTTP verb, \<open>url\<close> the path as the
  list of its segments (an optional trailing slash dropped), \<open>headers\<close> and \<open>query\<close> map a name to its string value,
  \<open>params\<close> is filled in by the router, and \<open>body\<close> is the payload as parsed by the JSON
  body parser (an absent payload is the empty object). Repeated or bracketed query
  parameters, which the query parser turns into arrays or objects, are not represented.
\<close>

record request =
  meth :: verb
  url :: "string list"
  headers :: "string \<rightharpoonup> string"
  query :: "string \<rightharpoonup> string"
  params :: "string \<rightharpoonup> string"
  body :: obj

text \<open>The objects the handlers pass to \<^verbatim>\<open>res.json\<close>.\<close>

record results =
  total :: nat
  page :: int
  limit :: int
  products :: "obj list"

text \<open>A counter of the statistics object: a number, or \<^verbatim>\<open>NaN\<close> (serialised as \<^verbatim>\<open>null\<close>).\<close>

datatype count = Count nat | NaN

record stats =
  totalProducts :: nat
  inStock :: nat
  outOfStock :: nat
  categories :: "(string, count) fmap"

text \<open>
  What a response carries: text, one of the JSON values above, the error envelope
  \<^verbatim>\<open>{error: {name, message, statusCode}}\<close>, nothing, or one of the HTML pages that
  Express itself writes when no handler of the application answers: for an error that no
  error-handling middleware took (the page shows the error's stack trace outside
  production mode) and for a request that ran off the end of the stack.
\<close>

datatype payload =
    Text string
  | Json_results results
  | Json_product obj
  | Json_products "obj list"
  | Json_stats stats
  | Json_error string string nat
  | Empty
  | Default_error_page error
  | Default_not_found_page

record response =
  status :: nat
  payload :: payload

text \<open>
  A middleware or handler calls \<^verbatim>\<open>next()\<close>, throws, or writes the response. It is
  given the module's array \<^verbatim>\<open>products\<close> (the parameter \<open>store\<close> below), the string that
  \<^verbatim>\<open>uuidv4()\<close> yields during this request, and the request; when it responds it returns
  the array as it leaves it.
\<close>

datatype outcome = Next | Throw error | Respond "obj list" response

type_synonym handler = "obj list \<Rightarrow> string \<Rightarrow> request \<Rightarrow> outcome"

section \<open>Middleware\<close>

definition loggerMiddleware :: handler where
  "loggerMiddleware store uuid req = Next"

definition apiKeyMiddleware :: handler where
  "apiKeyMiddleware store uuid req =
     (let apiKey = headers req ''x-api-key''
      in if \<not> truthy_str apiKey \<or> apiKey \<noteq> Some ''secret-api-key''
         then Throw (AuthError ''Invalid or missing API key'')
         else Next)"

text \<open>The message of the first check that the payload fails, if any.\<close>

definition validation_failure :: "obj \<Rightarrow> string option" where
  "validation_failure product =
     (if \<not> truthy (fmlookup product ''name'') \<or> typeof (fmlookup product ''name'') \<noteq> ''string''
      then Some ''Product name is required and must be a string''
      else if \<not> truthy (fmlookup product ''description'')
              \<or> typeof (fmlookup product ''description'') \<noteq> ''string''
      then Some ''Product description is required and must be a string''
      else if \<not> truthy (fmlookup product ''price'')
              \<or> typeof (fmlookup product ''price'') \<noteq> ''number''
              \<or> le_zero (fmlookup product ''price'')
      then Some ''Product price is required and must be a positive number''
      else if \<not> truthy (fmlookup product ''category'')
              \<or> typeof (fmlookup product ''category'') \<noteq> ''string''
      then Some ''Product category is required and must be a string''
      else if typeof (fmlookup product ''inStock'') \<noteq> ''boolean''
      then Some ''Product inStock status is required and must be a boolean''
      else None)"

definition validateProductMiddleware :: handler where
  "validateProductMiddleware store uuid req =
     (case validation_failure (body req) of
        Some msg \<Rightarrow> Throw (ValidationError msg)
      | None \<Rightarrow> Next)"

section \<open>Route handlers\<close>

text \<open>The array \<^verbatim>\<open>products\<close> as the module initialises it.\<close>

definition seed :: "obj list" where
  "seed =
     [fmap_of_list
        [(''id'', JStr ''1''), (''name'', JStr ''Laptop''),
         (''description'', JStr ''High-performance laptop with 16GB RAM''),
         (''price'', JNum 1200), (''category'', JStr ''electronics''),
         (''inStock'', JBool True)],
      fmap_of_list
        [(''id'', JStr ''2''), (''name'', JStr ''Smartphone''),
         (''description'', JStr ''Latest model with 128GB storage''),
         (''price'', JNum 800), (''category'', JStr ''electronics''),
         (''inStock'', JBool True)],
      fmap_of_list
        [(''id'', JStr ''3''), (''name'', JStr ''Coffee Maker''),
         (''description'', JStr ''Programmable coffee maker with timer''),
         (''price'', JNum 50), (''category'', JStr ''kitchen''),
         (''inStock'', JBool False)]]"

definition root :: handler where
  "root store uuid req =
     Respond store
       \<lparr>status = 200,
        payload = Text ''Welcome to the Product API! Go to /api/products to see all products.''\<rparr>"

subsection \<open>\<^verbatim>\<open>GET /api/products\<close>\<close>

text \<open>
  \<^verbatim>\<open>product.category.toLowerCase()\<close> (and the same on \<^verbatim>\<open>name\<close>): a \<^verbatim>\<open>TypeError\<close> unless the
  property is a string. The error's message is the JavaScript engine's and is not
  reproduced.
\<close>

definition prop_toLowerCase :: "obj \<Rightarrow> string \<Rightarrow> error + string" where
  "prop_toLowerCase product k =
     (case fmlookup product k of
        Some (JStr s) \<Rightarrow> Inr (toLowerCase s)
      | _ \<Rightarrow> Inl (TypeError (k @ ''.toLowerCase is not a function'')))"

text \<open>
  \<^verbatim>\<open>xs.filter(f)\<close> for a callback that may throw: elements are visited in order and the
  first exception ends the call.
\<close>

fun filter_throwing :: "('a \<Rightarrow> error + bool) \<Rightarrow> 'a list \<Rightarrow> error + 'a list" where
  "filter_throwing f [] = Inr []"
| "filter_throwing f (x # xs) =
     (case f x of
        Inl e \<Rightarrow> Inl e
      | Inr keep \<Rightarrow>
          (case filter_throwing f xs of
             Inl e \<Rightarrow> Inl e
           | Inr r \<Rightarrow> Inr (if keep then x # r else r)))"

definition category_filter :: "string option \<Rightarrow> obj list \<Rightarrow> error + obj list" where
  "category_filter category filteredProducts =
     (case category of
        None \<Rightarrow> Inr filteredProducts
      | Some c \<Rightarrow>
          if c = [] then Inr filteredProducts
          else filter_throwing
                 (\<lambda>product. map_sum id (\<lambda>pc. pc = toLowerCase c)
                                (prop_toLowerCase product ''category''))
                 filteredProducts)"

definition stock_filter :: "string option \<Rightarrow> obj list \<Rightarrow> obj list" where
  "stock_filter inStockParam filteredProducts =
     (case inStockParam of
        None \<Rightarrow> filteredProducts
      | Some v \<Rightarrow>
          if v = [] then filteredProducts
          else let inStock = (toLowerCase v = ''true'')
               in filter (\<lambda>product. fmlookup product ''inStock'' = Some (JBool inStock))
                         filteredProducts)"

definition paginate :: "string option \<Rightarrow> string option \<Rightarrow> obj list \<Rightarrow> results" where
  "paginate pageParam limitParam filteredProducts =
     (let page = or_default (parseInt pageParam) 1;
          limit = or_default (parseInt limitParam) 10;
          startIndex = (page - 1) * limit;
          endIndex = page * limit
      in \<lparr>total = length filteredProducts, page = page, limit = limit,
          products = slice filteredProducts startIndex endIndex\<rparr>)"

definition getProducts :: handler where
  "getProducts store uuid req =
     (case category_filter (query req ''category'') store of
        Inl e \<Rightarrow> Throw e
      | Inr byCategory \<Rightarrow>
          Respond store
            \<lparr>status = 200,
             payload = Json_results
               (paginate (query req ''page'') (query req ''limit'')
                  (stock_filter (query req ''inStock'') byCategory))\<rparr>)"

subsection \<open>\<^verbatim>\<open>GET /api/products/search\<close>\<close>

definition searchProducts :: handler where
  "searchProducts store uuid req =
     (case query req ''q'' of
        None \<Rightarrow> Throw (ValidationError ''Search query parameter \"q\" is required'')
      | Some q \<Rightarrow>
          if q = [] then Throw (ValidationError ''Search query parameter \"q\" is required'')
          else (case filter_throwing
                       (\<lambda>product. map_sum id (\<lambda>n. str_includes n (toLowerCase q))
                                      (prop_toLowerCase product ''name''))
                       store of
                  Inl e \<Rightarrow> Throw e
                | Inr matchedProducts \<Rightarrow>
                    Respond store \<lparr>status = 200, payload = Json_products matchedProducts\<rparr>))"

subsection \<open>\<^verbatim>\<open>GET /api/products/stats\<close>\<close>

text \<open>
  The counters live in \<^verbatim>\<open>stats.categories\<close>, a plain object created by \<^verbatim>\<open>{}\<close>: reading
  a property it does not own falls through to \<^verbatim>\<open>Object.prototype\<close>, whose properties
  are the methods below and the accessor \<^verbatim>\<open>__proto__\<close>.
\<close>

definition object_prototype_methods :: "string list" where
  "object_prototype_methods =
     [''constructor'', ''hasOwnProperty'', ''isPrototypeOf'', ''propertyIsEnumerable'',
      ''toLocaleString'', ''toString'', ''valueOf'', ''__defineGetter__'',
      ''__defineSetter__'', ''__lookupGetter__'', ''__lookupSetter__'']"

datatype property = Own count | Inherited_method | Proto_accessor | Undefined

definition get_category :: "(string, count) fmap \<Rightarrow> string \<Rightarrow> property" where
  "get_category cats k =
     (case fmlookup cats k of
        Some n \<Rightarrow> Own n
      | None \<Rightarrow>
          if k = ''__proto__'' then Proto_accessor
          else if k \<in> set object_prototype_methods then Inherited_method
          else Undefined)"

text \<open>
  Assignment: the setter of \<^verbatim>\<open>__proto__\<close> ignores a number; any other name becomes (or
  stays) an own property.
\<close>

definition set_category :: "(string, count) fmap \<Rightarrow> string \<Rightarrow> count \<Rightarrow> (string, count) fmap" where
  "set_category cats k v = (if k = ''__proto__'' then cats else fmupd k v cats)"

text \<open>Truthiness of what was read; functions and objects are truthy, \<open>0\<close> and \<^verbatim>\<open>NaN\<close> are not.\<close>

fun truthy_property :: "property \<Rightarrow> bool" where
  "truthy_property (Own (Count n)) = (n \<noteq> 0)"
| "truthy_property (Own NaN) = False"
| "truthy_property Inherited_method = True"
| "truthy_property Proto_accessor = True"
| "truthy_property Undefined = False"

text \<open>\<^verbatim>\<open>x++\<close> stores \<open>Number(x) + 1\<close>; a function, an object and \<^verbatim>\<open>undefined\<close> convert to \<^verbatim>\<open>NaN\<close>.\<close>

fun increment :: "property \<Rightarrow> count" where
  "increment (Own (Count n)) = Count (n + 1)"
| "increment _ = NaN"

text \<open>
  The property key that \<^verbatim>\<open>product.category\<close> selects. A stored category is a string
  (lemma \<open>serve_valid_store\<close>); of the other values only \<^verbatim>\<open>undefined\<close>, \<^verbatim>\<open>null\<close> and the
  booleans are converted as JavaScript does, numbers, arrays and objects are not rendered.
\<close>

fun property_key :: "json option \<Rightarrow> string" where
  "property_key (Some (JStr s)) = s"
| "property_key None = ''undefined''"
| "property_key (Some JNull) = ''null''"
| "property_key (Some (JBool b)) = (if b then ''true'' else ''false'')"
| "property_key (Some v) = ''[object Object]''"

text \<open>One iteration of the \<^verbatim>\<open>forEach\<close> loop.\<close>

definition count_category :: "(string, count) fmap \<Rightarrow> obj \<Rightarrow> (string, count) fmap" where
  "count_category cats product =
     (let k = property_key (fmlookup product ''category'');
          cats1 = (if \<not> truthy_property (get_category cats k)
                   then set_category cats k (Count 0) else cats)
      in set_category cats1 k (increment (get_category cats1 k)))"

definition compute_stats :: "obj list \<Rightarrow> stats" where
  "compute_stats store =
     \<lparr>totalProducts = length store,
      inStock = length (filter (\<lambda>p. truthy (fmlookup p ''inStock'')) store),
      outOfStock = length (filter (\<lambda>p. \<not> truthy (fmlookup p ''inStock'')) store),
      categories = foldl count_category fmempty store\<rparr>"

definition getStats :: handler where
  "getStats store uuid req =
     Respond store \<lparr>status = 200, payload = Json_stats (compute_stats store)\<rparr>"

subsection \<open>\<^verbatim>\<open>GET\<close>, \<^verbatim>\<open>POST\<close>, \<^verbatim>\<open>PUT\<close> and \<^verbatim>\<open>DELETE\<close> of a product\<close>

text \<open>\<^verbatim>\<open>p.id === req.params.id\<close>: the stored value is the very string of the path.\<close>

definition has_id :: "string option \<Rightarrow> obj \<Rightarrow> bool" where
  "has_id ident p = (fmlookup p ''id'' = map_option JStr ident)"

definition getProductById :: handler where
  "getProductById store uuid req =
     (case find (has_id (params req ''id'')) store of
        None \<Rightarrow> Throw (NotFoundError ''Product not found'')
      | Some product \<Rightarrow> Respond store \<lparr>status = 200, payload = Json_product product\<rparr>)"

definition createProduct :: handler where
  "createProduct store uuid req =
     (let newProduct = fmupd ''id'' (JStr uuid) fmempty ++\<^sub>f body req
      in Respond (store @ [newProduct]) \<lparr>status = 201, payload = Json_product newProduct\<rparr>)"

definition updateProduct :: handler where
  "updateProduct store uuid req =
     (case findIndex (has_id (params req ''id'')) store of
        None \<Rightarrow> Throw (NotFoundError ''Product not found'')
      | Some productIndex \<Rightarrow>
          let updatedProduct =
                assign ''id'' (map_option JStr (params req ''id''))
                  (store ! productIndex ++\<^sub>f body req)
          in Respond (store[productIndex := updatedProduct])
               \<lparr>status = 200, payload = Json_product updatedProduct\<rparr>)"

definition deleteProduct :: handler where
  "deleteProduct store uuid req =
     (case findIndex (has_id (params req ''id'')) store of
        None \<Rightarrow> Throw (NotFoundError ''Product not found'')
      | Some productIndex \<Rightarrow>
          Respond (filter (\<lambda>p. \<not> has_id (params req ''id'') p) store)
            \<lparr>status = 204, payload = Empty\<rparr>)"

section \<open>The application\<close>

text \<open>The error-handling middleware: \<^verbatim>\<open>x || d\<close> replaces a missing, zero or empty \<open>x\<close>.\<close>

definition errorHandler :: "error \<Rightarrow> response" where
  "errorHandler err =
     (let statusCode = (case statusCode err of None \<Rightarrow> 500 | Some c \<Rightarrow> if c = 0 then 500 else c);
          message = (if message err = [] then ''Internal Server Error'' else message err)
      in \<lparr>status = statusCode,
          payload = Json_error (if name err = [] then ''Error'' else name err) message statusCode\<rparr>)"

definition notFoundHandler :: handler where
  "notFoundHandler store uuid req = Throw (NotFoundError ''Endpoint not found'')"

text \<open>
  What Express does when the stack is exhausted: an error that is still pending is
  answered with its \<^verbatim>\<open>statusCode\<close> (when that is a 4xx or 5xx code, else 500) and the
  default HTML error page; a request without error is answered 404.
\<close>

definition finalhandler :: "error option \<Rightarrow> response" where
  "finalhandler pending =
     (case pending of
        None \<Rightarrow> \<lparr>status = 404, payload = Default_not_found_page\<rparr>
      | Some err \<Rightarrow>
          \<lparr>status = (case statusCode err of
                       None \<Rightarrow> 500
                     | Some c \<Rightarrow> if 400 \<le> c \<and> c < 600 then c else 500),
           payload = Default_error_page err\<rparr>)"

text \<open>
  A layer of the stack, in the order of the \<^verbatim>\<open>app.use\<close> and \<^verbatim>\<open>app.get\<close>, \<^verbatim>\<open>app.post\<close>, ...
  calls: a middleware for every request, a route (verb, path pattern, chain of
  handlers) or an error-handling middleware (the function of four arguments).
\<close>

datatype segment = Lit string | Param string

datatype layer =
    Use handler
  | Route verb "segment list" "handler list"
  | Use_error "error \<Rightarrow> response"

text \<open>
  Matching a path against a pattern binds the parameters. Express compares literal
  segments without regard to case; a parameter takes one non-empty segment.
\<close>

fun match_path :: "segment list \<Rightarrow> string list \<Rightarrow> (string \<rightharpoonup> string) option" where
  "match_path [] [] = Some Map.empty"
| "match_path (Lit l # pat) (s # ss) =
     (if toLowerCase s = toLowerCase l then match_path pat ss else None)"
| "match_path (Param n # pat) (s # ss) =
     (if s = [] then None
      else map_option (\<lambda>m. m(n \<mapsto> s)) (match_path pat ss))"
| "match_path _ _ = None"

text \<open>The handlers of a route run in order until one throws or responds.\<close>

fun run_chain :: "handler list \<Rightarrow> handler" where
  "run_chain [] store uuid req = Next"
| "run_chain (h # hs) store uuid req =
     (case h store uuid req of
        Next \<Rightarrow> run_chain hs store uuid req
      | Throw e \<Rightarrow> Throw e
      | Respond store' res \<Rightarrow> Respond store' res)"

text \<open>
  The walk of Express through the stack. While no error is pending, error-handling
  layers are skipped; once a layer has thrown, only the error-handling layers that come
  after it are considered, and the first one answers.
\<close>

fun handle :: "layer list \<Rightarrow> error option \<Rightarrow> obj list \<Rightarrow> string \<Rightarrow> request \<Rightarrow> obj list \<times> response" where
  "handle [] pending store uuid req = (store, finalhandler pending)"
| "handle (Use_error eh # ls) (Some err) store uuid req = (store, eh err)"
| "handle (l # ls) (Some err) store uuid req = handle ls (Some err) store uuid req"
| "handle (Use_error eh # ls) None store uuid req = handle ls None store uuid req"
| "handle (Use h # ls) None store uuid req =
     (case h store uuid req of
        Next \<Rightarrow> handle ls None store uuid req
      | Throw e \<Rightarrow> handle ls (Some e) store uuid req
      | Respond store' res \<Rightarrow> (store', res))"
| "handle (Route m pat hs # ls) None store uuid req =
     (case (if meth req = m then match_path pat (url req) else None) of
        None \<Rightarrow> handle ls None store uuid req
      | Some ps \<Rightarrow>
          (case run_chain hs store uuid (req\<lparr>params := ps\<rparr>) of
             Next \<Rightarrow> handle ls None store uuid req
           | Throw e \<Rightarrow> handle ls (Some e) store uuid req
           | Respond store' res \<Rightarrow> (store', res)))"

definition app :: "layer list" where
  "app =
     [Use loggerMiddleware,
      Route GET [] [root],
      Route GET [Lit ''api'', Lit ''products''] [getProducts],
      Route GET [Lit ''api'', Lit ''products'', Lit ''search''] [searchProducts],
      Route GET [Lit ''api'', Lit ''products'', Lit ''stats''] [getStats],
      Route GET [Lit ''api'', Lit ''products'', Param ''id''] [getProductById],
      Route POST [Lit ''api'', Lit ''products'']
        [apiKeyMiddleware, validateProductMiddleware, createProduct],
      Route PUT [Lit ''api'', Lit ''products'', Param ''id'']
        [apiKeyMiddleware, validateProductMiddleware, updateProduct],
      Route DELETE [Lit ''api'', Lit ''products'', Param ''id'']
        [apiKeyMiddleware, deleteProduct],
      Use_error errorHandler,
      Use notFoundHandler]"

text \<open>One request served against the current array.\<close>

definition serve :: "obj list \<Rightarrow> string \<Rightarrow> request \<Rightarrow> obj list \<times> response" where
  "serve store uuid req = handle app None store uuid req"

section \<open>Notions used by the properties\<close>

text \<open>A store whose every record passes the checks of the validation middleware.\<close>

definition valid_store :: "obj list \<Rightarrow> bool" where
  "valid_store store = list_all (\<lambda>p. validation_failure p = None) store"

text \<open>The arrays that a sequence of requests can produce from the initial one.\<close>

inductive reachable :: "obj list \<Rightarrow> bool" where
  initial: "reachable seed"
| request: "reachable store \<Longrightarrow> reachable (fst (serve store uuid req))"

text \<open>The \<^verbatim>\<open>id\<close> properties of the stored records, in order.\<close>

definition ids :: "obj list \<Rightarrow> json option list" where
  "ids store = map (\<lambda>p. fmlookup p ''id'') store"

text \<open>The sum of the numeric counters of a \<^verbatim>\<open>categories\<close> object.\<close>

definition count_sum :: "(string, count) fmap \<Rightarrow> nat" where
  "count_sum cats =
     (\<Sum>k\<in>fmdom' cats. case fmlookup cats k of Some (Count n) \<Rightarrow> n | _ \<Rightarrow> 0)"

text \<open>
  The property key of a record's category, the arrays in which no category names a
  property of \<^verbatim>\<open>Object.prototype\<close>, and counters that are all numbers above 0.
\<close>

definition category_key :: "obj \<Rightarrow> string" where
  "category_key p = property_key (fmlookup p ''category'')"

definition own_names :: "obj list \<Rightarrow> bool" where
  "own_names store =
     list_all (\<lambda>p. category_key p \<notin> set (''__proto__'' # object_prototype_methods)) store"

definition positive_counters :: "(string, count) fmap \<Rightarrow> bool" where
  "positive_counters cats = (\<forall>k v. fmlookup cats k = Some v \<longrightarrow> (\<exists>n. v = Count (Suc n)))"

definition counter :: "(string, count) fmap \<Rightarrow> string \<Rightarrow> nat" where
  "counter cats k = (case fmlookup cats k of Some (Count n) \<Rightarrow> n | _ \<Rightarrow> 0)"

subsection \<open>The specification's reading of pagination and of the stock filter\<close>


text \<open>
  The records whose \<^verbatim>\<open>inStock\<close> is the boolean parsed from the supplied value (\<open>true\<close> in
  any case is true, everything else false); no filtering without a value.
\<close>

definition spec_stock_filter :: "string option \<Rightarrow> obj list \<Rightarrow> obj list" where
  "spec_stock_filter v xs =
     (case v of
        None \<Rightarrow> xs
      | Some s \<Rightarrow>
          filter (\<lambda>p. fmlookup p ''inStock'' = Some (JBool (toLowerCase s = ''true''))) xs)"

subsection \<open>Example requests\<close>

definition example_request :: "verb \<Rightarrow> string list \<Rightarrow> request" where
  "example_request m p =
     \<lparr>meth = m, url = p, headers = Map.empty, query = Map.empty, params = Map.empty,
      body = fmempty\<rparr>"

definition with_key :: "request \<Rightarrow> request" where
  "with_key req = req\<lparr>headers := [''x-api-key'' \<mapsto> ''secret-api-key'']\<rparr>"

text \<open>A payload that passes validation, of a given category, and the request creating it.\<close>

definition tablet :: "string \<Rightarrow> obj" where
  "tablet c =
     fmap_of_list
       [(''name'', JStr ''Tablet''), (''description'', JStr ''10 inch tablet''),
        (''price'', JNum 300), (''category'', JStr c), (''inStock'', JBool True)]"

definition create :: "obj \<Rightarrow> request" where
  "create b = (with_key (example_request POST [''api'', ''products'']))\<lparr>body := b\<rparr>"

definition update :: "string \<Rightarrow> obj \<Rightarrow> request" where
  "update ident b =
     (with_key (example_request PUT [''api'', ''products'', ident]))\<lparr>body := b\<rparr>"

section \<open>Properties\<close>

subsection \<open>Validated records\<close>

lemma typeof_string: "typeof v = ''string'' \<Longrightarrow> \<exists>s. v = Some (JStr s)"
  by (cases v rule: typeof.cases) simp_all

lemma typeof_boolean: "typeof v = ''boolean'' \<Longrightarrow> \<exists>b. v = Some (JBool b)"
  by (cases v rule: typeof.cases) simp_all

lemma typeof_number: "typeof v = ''number'' \<Longrightarrow> \<exists>r. v = Some (JNum r)"
  by (cases v rule: typeof.cases) simp_all

lemma valid_fields:
  assumes "validation_failure p = None"
  shows "\<exists>n d r c b.
           fmlookup p ''name'' = Some (JStr n) \<and> n \<noteq> []
         \<and> fmlookup p ''description'' = Some (JStr d) \<and> d \<noteq> []
         \<and> fmlookup p ''price'' = Some (JNum r) \<and> 0 < r
         \<and> fmlookup p ''category'' = Some (JStr c) \<and> c \<noteq> []
         \<and> fmlookup p ''inStock'' = Some (JBool b)"
proof -
  from assms have t: "typeof (fmlookup p ''name'') = ''string''"
      "typeof (fmlookup p ''description'') = ''string''"
      "typeof (fmlookup p ''price'') = ''number''"
      "typeof (fmlookup p ''category'') = ''string''"
      "typeof (fmlookup p ''inStock'') = ''boolean''"
    and v: "truthy (fmlookup p ''name'')" "truthy (fmlookup p ''description'')"
      "truthy (fmlookup p ''category'')" "\<not> le_zero (fmlookup p ''price'')"
    by (simp_all add: validation_failure_def split: if_splits)
  from t(1) obtain n where n: "fmlookup p ''name'' = Some (JStr n)"
    using typeof_string by blast
  from t(2) obtain d where d: "fmlookup p ''description'' = Some (JStr d)"
    using typeof_string by blast
  from t(3) obtain r where r: "fmlookup p ''price'' = Some (JNum r)"
    using typeof_number by blast
  from t(4) obtain c where c: "fmlookup p ''category'' = Some (JStr c)"
    using typeof_string by blast
  from t(5) obtain b where b: "fmlookup p ''inStock'' = Some (JBool b)"
    using typeof_boolean by blast
  from v n d c r have "n \<noteq> []" "d \<noteq> []" "c \<noteq> []" "0 < r" by simp_all
  with n d r c b show ?thesis by blast
qed

lemma valid_category:
  assumes "validation_failure p = None"
  shows "\<exists>s. fmlookup p ''category'' = Some (JStr s)"
  using valid_fields[OF assms] by blast

lemma filter_throwing_total:
  assumes "list_all (\<lambda>x. \<exists>b. f x = Inr b) xs"
  shows "filter_throwing f xs = Inr (filter (\<lambda>x. f x = Inr True) xs)"
  using assms by (induction xs) auto

lemma category_filter_valid:
  assumes "valid_store store"
  shows "category_filter c store =
           Inr (case c of
                  None \<Rightarrow> store
                | Some s \<Rightarrow>
                    if s = [] then store
                    else filter (\<lambda>p. map_sum id (\<lambda>pc. pc = toLowerCase s)
                                        (prop_toLowerCase p ''category'') = Inr True) store)"
proof (cases c)
  case None
  then show ?thesis by (simp add: category_filter_def)
next
  case (Some s)
  have "\<exists>b. map_sum id (\<lambda>pc. pc = toLowerCase s) (prop_toLowerCase p ''category'') = Inr b"
    if "validation_failure p = None" for p
    using valid_category[OF that] by (auto simp: prop_toLowerCase_def)
  then have "list_all (\<lambda>p. \<exists>b. map_sum id (\<lambda>pc. pc = toLowerCase s)
                           (prop_toLowerCase p ''category'') = Inr b) store"
    using assms by (simp add: valid_store_def list_all_iff)
  then show ?thesis
    using Some by (simp add: category_filter_def filter_throwing_total)
qed

lemma valid_store_stock_filter: "valid_store store \<Longrightarrow> valid_store (stock_filter s store)"
  by (auto simp: valid_store_def stock_filter_def list_all_iff split: option.splits)

lemma stock_filter_filter: "stock_filter s (filter P xs) = filter P (stock_filter s xs)"
  by (auto simp: stock_filter_def Let_def split: option.splits intro: filter_cong)

lemma toLowerCase_Nil: "toLowerCase c = [] \<longleftrightarrow> c = []"
  by (simp add: toLowerCase_def)

lemma validation_failure_cong:
  assumes "fmlookup a ''name'' = fmlookup b ''name''"
    and "fmlookup a ''description'' = fmlookup b ''description''"
    and "fmlookup a ''price'' = fmlookup b ''price''"
    and "fmlookup a ''category'' = fmlookup b ''category''"
    and "fmlookup a ''inStock'' = fmlookup b ''inStock''"
  shows "validation_failure a = validation_failure b"
  unfolding validation_failure_def assms ..

lemma validation_failure_add:
  assumes "validation_failure b = None"
  shows "validation_failure (a ++\<^sub>f b) = None"
proof -
  have dom: "''name'' |\<in>| fmdom b" "''description'' |\<in>| fmdom b" "''price'' |\<in>| fmdom b"
    "''category'' |\<in>| fmdom b" "''inStock'' |\<in>| fmdom b"
    using valid_fields[OF assms] by (auto intro: fmdomI)
  then have "validation_failure (a ++\<^sub>f b) = validation_failure b"
    by (intro validation_failure_cong) simp_all
  with assms show ?thesis by simp
qed

lemma validation_failure_id: "validation_failure (fmupd ''id'' v m) = validation_failure m"
  by (intro validation_failure_cong) simp_all

lemma validation_failure_assign_id: "validation_failure (assign ''id'' v m) = validation_failure m"
  by (cases v; intro validation_failure_cong) simp_all

lemmas handler_defs = loggerMiddleware_def apiKeyMiddleware_def validateProductMiddleware_def
  errorHandler_def AuthError_def ValidationError_def

lemma handle_cases:
  assumes "\<And>h store' res. Use h \<in> set ls \<Longrightarrow> h store uuid req = Respond store' res \<Longrightarrow> Q store' res"
    and "\<And>m pat hs ps store' res.
           Route m pat hs \<in> set ls \<Longrightarrow> meth req = m \<Longrightarrow> match_path pat (url req) = Some ps \<Longrightarrow>
           run_chain hs store uuid (req\<lparr>params := ps\<rparr>) = Respond store' res \<Longrightarrow> Q store' res"
    and "\<And>eh e. Use_error eh \<in> set ls \<Longrightarrow> Q store (eh e)"
    and "\<And>p. Q store (finalhandler p)"
  shows "Q (fst (handle ls pending store uuid req)) (snd (handle ls pending store uuid req))"
  using assms
proof (induction ls arbitrary: pending)
  case Nil
  then show ?case by simp
next
  case (Cons l ls)
  have ih: "Q (fst (handle ls q store uuid req)) (snd (handle ls q store uuid req))" for q
  proof (rule Cons.IH)
    fix h store' res
    assume "Use h \<in> set ls" and "h store uuid req = Respond store' res"
    then show "Q store' res" using Cons.prems(1)[of h store' res] by simp
  next
    fix m pat hs ps store' res
    assume "Route m pat hs \<in> set ls" and "meth req = m" and "match_path pat (url req) = Some ps"
      and "run_chain hs store uuid (req\<lparr>params := ps\<rparr>) = Respond store' res"
    then show "Q store' res" using Cons.prems(2)[of m pat hs ps store' res] by simp
  next
    fix eh e
    assume "Use_error eh \<in> set ls"
    then show "Q store (eh e)" using Cons.prems(3)[of eh e] by simp
  next
    fix p show "Q store (finalhandler p)" by (rule Cons.prems(4))
  qed
  show ?case
  proof (cases pending)
    case (Some err)
    then show ?thesis using ih Cons.prems(3) by (cases l) simp_all
  next
    case None
    show ?thesis
    proof (cases l)
      case (Use h)
      then show ?thesis
        using None ih Cons.prems(1)[of h] by (auto split: outcome.splits)
    next
      case (Route m pat hs)
      then show ?thesis
        using None ih Cons.prems(2)[of m pat hs]
        by (auto split: outcome.splits option.splits if_splits)
    next
      case (Use_error eh)
      then show ?thesis using None ih by simp
    qed
  qed
qed

lemma valid_store_update:
  assumes "valid_store store" and "validation_failure p = None"
  shows "valid_store (store[i := p])"
  using assms set_update_subset_insert[of store i p]
  by (auto simp: valid_store_def list_all_iff)

lemma create_chain_valid:
  assumes "run_chain [apiKeyMiddleware, validateProductMiddleware, createProduct] store uuid r =
             Respond store' res"
    and "valid_store store"
  shows "valid_store store'"
  using assms
  by (auto simp: handler_defs createProduct_def Let_def valid_store_def validation_failure_add
           split: if_splits option.splits)

lemma update_chain_valid:
  assumes "run_chain [apiKeyMiddleware, validateProductMiddleware, updateProduct] store uuid r =
             Respond store' res"
    and "valid_store store"
  shows "valid_store store'"
  using assms
  by (auto simp: handler_defs updateProduct_def Let_def validation_failure_add
           validation_failure_assign_id
           intro!: valid_store_update split: if_splits option.splits)

lemma delete_chain_valid:
  assumes "run_chain [apiKeyMiddleware, deleteProduct] store uuid r = Respond store' res"
    and "valid_store store"
  shows "valid_store store'"
  using assms
  by (auto simp: handler_defs deleteProduct_def valid_store_def list_all_iff Let_def
           split: if_splits option.splits)

lemma read_chains_keep_store:
  "run_chain [root] store uuid r = Respond store' res \<Longrightarrow> store' = store"
  "run_chain [getProducts] store uuid r = Respond store' res \<Longrightarrow> store' = store"
  "run_chain [searchProducts] store uuid r = Respond store' res \<Longrightarrow> store' = store"
  "run_chain [getStats] store uuid r = Respond store' res \<Longrightarrow> store' = store"
  "run_chain [getProductById] store uuid r = Respond store' res \<Longrightarrow> store' = store"
  by (auto simp: root_def getProducts_def searchProducts_def getStats_def getProductById_def
           split: sum.splits option.splits if_splits)

lemma app_routes:
  assumes "Route m pat hs \<in> set app"
  shows "(m, hs) \<in> {(GET, [root]), (GET, [getProducts]), (GET, [searchProducts]),
                    (GET, [getStats]), (GET, [getProductById]),
                    (POST, [apiKeyMiddleware, validateProductMiddleware, createProduct]),
                    (PUT, [apiKeyMiddleware, validateProductMiddleware, updateProduct]),
                    (DELETE, [apiKeyMiddleware, deleteProduct])}"
  using assms unfolding app_def by simp blast

lemma app_uses:
  assumes "Use h \<in> set app"
  shows "h = loggerMiddleware \<or> h = notFoundHandler"
  using assms unfolding app_def by simp

lemma serve_valid_store:
  assumes "valid_store store"
  shows "valid_store (fst (serve store uuid req))"
proof -
  have "(\<lambda>store' res. valid_store store')
          (fst (handle app None store uuid req)) (snd (handle app None store uuid req))"
  proof (rule handle_cases)
    fix h store' res
    assume "Use h \<in> set app" and "h store uuid req = Respond store' res"
    then show "valid_store store'"
      using app_uses[of h] by (auto simp: loggerMiddleware_def notFoundHandler_def)
  next
    fix m pat hs ps store' res
    assume chain: "run_chain hs store uuid (req\<lparr>params := ps\<rparr>) = Respond store' res"
    assume "Route m pat hs \<in> set app"
    then consider "run_chain hs store uuid (req\<lparr>params := ps\<rparr>) = Respond store' res
                     \<longrightarrow> store' = store"
      | "hs = [apiKeyMiddleware, validateProductMiddleware, createProduct]"
      | "hs = [apiKeyMiddleware, validateProductMiddleware, updateProduct]"
      | "hs = [apiKeyMiddleware, deleteProduct]"
      using app_routes[of m pat hs]
        read_chains_keep_store[of store uuid "req\<lparr>params := ps\<rparr>" store' res] by fast
    then show "valid_store store'"
    proof cases
      case 1
      with chain assms show ?thesis by simp
    next
      case 2
      with chain assms show ?thesis using create_chain_valid by simp
    next
      case 3
      with chain assms show ?thesis using update_chain_valid by simp
    next
      case 4
      with chain assms show ?thesis using delete_chain_valid by simp
    qed
  qed (simp_all add: assms)
  then show ?thesis by (simp add: serve_def)
qed

lemma seed_valid: "valid_store seed"
  by code_simp

lemma reachable_valid: "reachable store \<Longrightarrow> valid_store store"
  by (induction rule: reachable.induct) (simp_all add: seed_valid serve_valid_store)

lemma findIndex_Some:
  "findIndex f xs = Some i \<Longrightarrow> i < length xs \<and> f (xs ! i)"
  by (induction xs arbitrary: i) (auto split: if_splits)

lemma findIndex_None: "findIndex f xs = None \<longleftrightarrow> (\<forall>x\<in>set xs. \<not> f x)"
  by (induction xs) auto

lemma validation_failure_message: "validation_failure b = Some msg \<Longrightarrow> msg \<noteq> []"
  by (auto simp: validation_failure_def split: if_splits)

subsection \<open>Creation and the \<^verbatim>\<open>id\<close> of a record\<close>

text \<open>
  What holds when the payload carries no \<^verbatim>\<open>id\<close>: the record is stored under the
  generated string, and it is the record fetched under that string when no stored
  record had it. The \<^verbatim>\<open>id\<close> values stay distinct as long as every created payload comes
  without \<^verbatim>\<open>id\<close> and every generated string is new.
\<close>

lemma create_chain_ids:
  assumes "run_chain [apiKeyMiddleware, validateProductMiddleware, createProduct] store uuid r =
             Respond store' res"
    and "fmlookup (body r) ''id'' = None"
  shows "ids store' = ids store @ [Some (JStr uuid)]"
  using assms
  by (auto simp: handler_defs createProduct_def Let_def ids_def fmdom_notI
           split: if_splits option.splits)

lemma lookup_assign: "fmlookup (assign k v m) k = v"
  by (cases v) simp_all

lemma update_chain_ids:
  assumes "run_chain [apiKeyMiddleware, validateProductMiddleware, updateProduct] store uuid r =
             Respond store' res"
  shows "ids store' = ids store"
proof -
  from assms obtain i where i: "findIndex (has_id (params r ''id'')) store = Some i"
    and s: "store' = store[i := assign ''id'' (map_option JStr (params r ''id''))
                                  (store ! i ++\<^sub>f body r)]"
    by (auto simp: handler_defs updateProduct_def Let_def split: if_splits option.splits)
  from findIndex_Some[OF i] have "i < length store"
    and "fmlookup (store ! i) ''id'' = map_option JStr (params r ''id'')"
    by (simp_all add: has_id_def)
  then have "(ids store)[i := map_option JStr (params r ''id'')] = ids store"
    by (simp add: ids_def list_update_same_conv)
  then show ?thesis
    by (simp add: s ids_def map_update lookup_assign)
qed

lemma delete_chain_ids:
  assumes "run_chain [apiKeyMiddleware, deleteProduct] store uuid r = Respond store' res"
    and "distinct (ids store)"
  shows "distinct (ids store')"
  using assms
  by (auto simp: handler_defs deleteProduct_def Let_def ids_def distinct_map_filter
           split: if_splits option.splits)

lemma serve_ids_distinct:
  assumes "distinct (ids store)"
    and "meth req = POST \<longrightarrow>
           fmlookup (body req) ''id'' = None \<and> Some (JStr uuid) \<notin> set (ids store)"
  shows "distinct (ids (fst (serve store uuid req)))"
proof -
  have "(\<lambda>store' res. distinct (ids store'))
          (fst (handle app None store uuid req)) (snd (handle app None store uuid req))"
  proof (rule handle_cases)
    fix h store' res
    assume "Use h \<in> set app" and "h store uuid req = Respond store' res"
    then show "distinct (ids store')"
      using app_uses[of h] by (auto simp: loggerMiddleware_def notFoundHandler_def)
  next
    fix m pat hs ps store' res
    assume chain: "run_chain hs store uuid (req\<lparr>params := ps\<rparr>) = Respond store' res"
      and m: "meth req = m"
    assume "Route m pat hs \<in> set app"
    then consider "run_chain hs store uuid (req\<lparr>params := ps\<rparr>) = Respond store' res
                     \<longrightarrow> store' = store"
      | "m = POST" and "hs = [apiKeyMiddleware, validateProductMiddleware, createProduct]"
      | "hs = [apiKeyMiddleware, validateProductMiddleware, updateProduct]"
      | "hs = [apiKeyMiddleware, deleteProduct]"
      using app_routes[of m pat hs]
        read_chains_keep_store[of store uuid "req\<lparr>params := ps\<rparr>" store' res] by fast
    then show "distinct (ids store')"
    proof cases
      case 1
      with chain assms(1) show ?thesis by simp
    next
      case 2
      with chain m assms show ?thesis
        using create_chain_ids[of store uuid "req\<lparr>params := ps\<rparr>" store' res] by simp
    next
      case 3
      with chain assms(1) show ?thesis using update_chain_ids by simp
    next
      case 4
      with chain assms(1) show ?thesis using delete_chain_ids by simp
    qed
  qed (simp_all add: assms(1))
  then show ?thesis by (simp add: serve_def)
qed

lemma create_assigns_generated_id:
  assumes "meth req = POST" and "match_path [Lit ''api'', Lit ''products''] (url req) = Some ps"
    and "headers req ''x-api-key'' = Some ''secret-api-key''"
    and "validation_failure (body req) = None"
    and "fmlookup (body req) ''id'' = None"
  shows "serve store uuid req =
           (store @ [fmupd ''id'' (JStr uuid) (body req)],
            \<lparr>status = 201, payload = Json_product (fmupd ''id'' (JStr uuid) (body req))\<rparr>)"
proof -
  have "fmupd ''id'' (JStr uuid) fmempty ++\<^sub>f body req = fmupd ''id'' (JStr uuid) (body req)"
    using assms(5) by (intro fmap_ext) (auto simp: fmdom_notI dest: fmdom_notD)
  then show ?thesis
    using assms by (simp add: serve_def app_def handler_defs createProduct_def Let_def)
qed

lemma find_append_last:
  assumes "\<forall>x\<in>set xs. \<not> f x" and "f y"
  shows "find f (xs @ [y]) = Some y"
  using assms by (induction xs) simp_all

lemma get_created_product:
  assumes "meth req = GET" and "url req = [''api'', ''products'', uuid]"
    and "uuid \<noteq> []" and "toLowerCase uuid \<noteq> ''search''" and "toLowerCase uuid \<noteq> ''stats''"
    and "Some (JStr uuid) \<notin> set (ids store)"
  shows "serve (store @ [fmupd ''id'' (JStr uuid) b]) uuid' req =
           (store @ [fmupd ''id'' (JStr uuid) b],
            \<lparr>status = 200, payload = Json_product (fmupd ''id'' (JStr uuid) b)\<rparr>)"
proof -
  have "find (has_id (Some uuid)) (store @ [fmupd ''id'' (JStr uuid) b]) =
          Some (fmupd ''id'' (JStr uuid) b)"
    using assms(6) by (intro find_append_last) (force simp: has_id_def ids_def)+
  then show ?thesis
    using assms
    by (simp add: serve_def app_def handler_defs getProductById_def toLowerCase_def
          lower_char_def)
qed

text \<open>
  C1 states that a created record gets a freshly generated \<^verbatim>\<open>id\<close> whatever \<^verbatim>\<open>id\<close> the
  payload holds, and that fetching by the returned \<^verbatim>\<open>id\<close> gives the created record. The
  handler builds \<^verbatim>\<open>{id: uuidv4(), ...req.body}\<close>: the payload is spread after the generated
  \<^verbatim>\<open>id\<close> and overrides it. On the initial array, a valid payload with \<^verbatim>\<open>id\<close> \<open>1\<close> is stored
  under the \<^verbatim>\<open>id\<close> \<open>1\<close>, not under the generated string, and fetching \<open>/api/products/1\<close>
  afterwards returns the laptop, not the record just created.
\<close>

theorem create_keeps_payload_id:
  "serve seed ''uuid-1'' (create (fmupd ''id'' (JStr ''1'') (tablet ''electronics''))) =
     (seed @ [fmupd ''id'' (JStr ''1'') (tablet ''electronics'')],
      \<lparr>status = 201, payload = Json_product (fmupd ''id'' (JStr ''1'') (tablet ''electronics''))\<rparr>)
   \<and> snd (serve (seed @ [fmupd ''id'' (JStr ''1'') (tablet ''electronics'')]) ''uuid-2''
             (example_request GET [''api'', ''products'', ''1''])) =
     \<lparr>status = 200, payload = Json_product (hd seed)\<rparr>"
  by code_simp

text \<open>
  C4 states that the \<^verbatim>\<open>id\<close> values of the array stay pairwise distinct under every
  sequence of create, update and delete operations. The same creation leaves two records
  with the \<^verbatim>\<open>id\<close> \<open>1\<close> in the array.
\<close>

theorem create_duplicates_id:
  "ids (fst (serve seed ''uuid-1'' (create (fmupd ''id'' (JStr ''1'') (tablet ''electronics''))))) =
     [Some (JStr ''1''), Some (JStr ''2''), Some (JStr ''3''), Some (JStr ''1'')]
   \<and> \<not> distinct (ids (fst (serve seed ''uuid-1''
                        (create (fmupd ''id'' (JStr ''1'') (tablet ''electronics''))))))"
  by code_simp

subsection \<open>Unmatched requests\<close>

text \<open>An error thrown inside a route does reach the error-handling middleware.\<close>

lemma missing_product_gets_envelope:
  "serve seed uuid (example_request GET [''api'', ''products'', ''999'']) =
     (seed, \<lparr>status = 404, payload = Json_error ''NotFoundError'' ''Product not found'' 404\<rparr>)"
  by (simp add: serve_def app_def handler_defs getProductById_def example_request_def
        toLowerCase_def lower_char_def seed_def has_id_def NotFoundError_def)

text \<open>
  C2 states that a request matching no route is answered 404 with the JSON error
  envelope carrying the message \<open>Endpoint not found\<close>, and that no failing request gets
  anything but that envelope. The middleware that throws \<open>Endpoint not found\<close> is
  registered after the error-handling middleware, which therefore never sees its error:
  for every array, \<open>GET /nope\<close> is answered by the default error page of Express (status
  404, an HTML page that shows the stack trace outside production mode).
\<close>

theorem unmatched_gets_default_page:
  "serve store uuid (example_request GET [''nope'']) =
     (store,
      \<lparr>status = 404, payload = Default_error_page (NotFoundError ''Endpoint not found'')\<rparr>)"
  by (simp add: serve_def app_def example_request_def loggerMiddleware_def
        notFoundHandler_def finalhandler_def NotFoundError_def toLowerCase_def lower_char_def)

subsection \<open>Statistics\<close>

text \<open>
  On an array in which no category names a property of \<^verbatim>\<open>Object.prototype\<close>, each
  category that occurs is mapped to the number of its records, under its exact string,
  and the counters add up to the number of records.
\<close>

lemma count_category_own:
  assumes "positive_counters cats"
    and "category_key p \<notin> set (''__proto__'' # object_prototype_methods)"
  shows "count_category cats p = fmupd (category_key p) (Count (Suc (counter cats (category_key p)))) cats"
proof (cases "fmlookup cats (category_key p)")
  case None
  then show ?thesis
    using assms(2)
    by (simp add: count_category_def category_key_def get_category_def set_category_def
          counter_def Let_def)
next
  case (Some v)
  then obtain n where "v = Count (Suc n)"
    using assms(1) by (auto simp: positive_counters_def)
  with Some show ?thesis
    using assms(2)
    by (simp add: count_category_def category_key_def get_category_def set_category_def
          counter_def Let_def)
qed

lemma positive_counters_upd:
  "positive_counters cats \<Longrightarrow> positive_counters (fmupd k (Count (Suc n)) cats)"
  by (simp add: positive_counters_def)

lemma foldl_count_category:
  assumes "positive_counters cats" and "own_names store"
  shows "positive_counters (foldl count_category cats store)
       \<and> (\<forall>c. counter (foldl count_category cats store) c =
                counter cats c + length (filter (\<lambda>p. category_key p = c) store))
       \<and> fmdom' (foldl count_category cats store) = fmdom' cats \<union> category_key ` set store"
  using assms
proof (induction store arbitrary: cats)
  case Nil
  then show ?case by simp
next
  case (Cons p store)
  let ?k = "category_key p"
  let ?cats = "fmupd ?k (Count (Suc (counter cats ?k))) cats"
  have own: "?k \<notin> set (''__proto__'' # object_prototype_methods)" and rest: "own_names store"
    using Cons.prems(2) by (simp_all add: own_names_def)
  have step: "count_category cats p = ?cats"
    using Cons.prems(1) own by (rule count_category_own)
  have pos: "positive_counters ?cats"
    using Cons.prems(1) by (rule positive_counters_upd)
  have c: "counter ?cats c = counter cats c + (if ?k = c then 1 else 0)" for c
    by (simp add: counter_def)
  from Cons.IH[OF pos rest] show ?case
    by (auto simp: step c)
qed

lemma stats_categories_exact:
  assumes "own_names store"
  shows "fmlookup (categories (compute_stats store)) c =
           (if c \<in> category_key ` set store
            then Some (Count (length (filter (\<lambda>p. category_key p = c) store)))
            else None)"
proof -
  let ?cats = "foldl count_category fmempty store"
  have e: "positive_counters fmempty" by (simp add: positive_counters_def)
  note f = foldl_count_category[OF e assms]
  have dom: "fmdom' ?cats = category_key ` set store" using f by simp
  have cnt: "counter ?cats c = length (filter (\<lambda>p. category_key p = c) store)"
    using f by (simp add: counter_def)
  show ?thesis
  proof (cases "c \<in> category_key ` set store")
    case True
    then have "c \<in> fmdom' ?cats" using dom by simp
    then obtain v where v: "fmlookup ?cats c = Some v" by (auto simp: fmlookup_dom'_iff)
    then obtain n where "v = Count (Suc n)" using f by (auto simp: positive_counters_def)
    with v cnt True show ?thesis by (simp add: compute_stats_def counter_def)
  next
    case False
    then have "c \<notin> fmdom' ?cats" using dom by simp
    then have "fmlookup ?cats c = None" by (simp add: fmdom'_notD)
    with False show ?thesis by (simp add: compute_stats_def)
  qed
qed

lemma sum_length_filter:
  assumes "finite A" and "f ` set xs \<subseteq> A"
  shows "(\<Sum>k\<in>A. length (filter (\<lambda>x. f x = k) xs)) = length xs"
  using assms(2)
proof (induction xs)
  case Nil
  then show ?case by simp
next
  case (Cons x xs)
  have "(\<Sum>k\<in>A. length (filter (\<lambda>y. f y = k) (x # xs))) =
          (\<Sum>k\<in>A. (if f x = k then 1 else 0) + length (filter (\<lambda>y. f y = k) xs))"
    by (intro sum.cong) auto
  also have "\<dots> = (\<Sum>k\<in>A. if f x = k then 1 else 0) + length xs"
    using Cons by (simp add: sum.distrib)
  also have "(\<Sum>k\<in>A. if f x = k then 1 else 0) = (1::nat)"
    using assms(1) Cons.prems by (simp add: sum.delta')
  finally show ?case by simp
qed

lemma sum_length_filter_image:
  "(\<Sum>k\<in>f ` set xs. length (filter (\<lambda>x. f x = k) xs)) = length xs"
  by (rule sum_length_filter) simp_all

lemma stats_counters_add_up:
  assumes "own_names store"
  shows "count_sum (categories (compute_stats store)) = totalProducts (compute_stats store)"
proof -
  let ?cats = "foldl count_category fmempty store"
  have e: "positive_counters fmempty" by (simp add: positive_counters_def)
  note f = foldl_count_category[OF e assms]
  have "count_sum ?cats = (\<Sum>k\<in>category_key ` set store. counter ?cats k)"
    using f by (simp add: count_sum_def counter_def)
  also have "\<dots> = (\<Sum>k\<in>category_key ` set store. length (filter (\<lambda>p. category_key p = k) store))"
    using f by (simp add: counter_def)
  also have "\<dots> = length store" by (rule sum_length_filter_image)
  finally show ?thesis by (simp add: compute_stats_def)
qed

text \<open>
  C9 states that the statistics count, over the whole array, the records, those in
  stock, those out of stock, and the records of each category under the exact category
  string. The counters are properties of a plain object, so a category that names a
  function of \<^verbatim>\<open>Object.prototype\<close> reads as that function the first time: the check for a
  missing counter does not fire and the increment stores \<^verbatim>\<open>NaN\<close>. After creating one
  record of category \<open>constructor\<close> the statistics report \<^verbatim>\<open>NaN\<close> (in JSON, \<^verbatim>\<open>null\<close>) for
  that category instead of 1.
\<close>

theorem stats_miscount_inherited_name:
  "snd (serve (fst (serve seed ''uuid-1'' (create (tablet ''constructor'')))) ''uuid-2''
          (example_request GET [''api'', ''products'', ''stats''])) =
     \<lparr>status = 200,
      payload = Json_stats
        \<lparr>totalProducts = 4, inStock = 3, outOfStock = 1,
         categories = fmap_of_list
           [(''electronics'', Count 2), (''kitchen'', Count 1), (''constructor'', NaN)]\<rparr>\<rparr>"
  by code_simp

lemma stats_stock_partition:
  "inStock (compute_stats store) + outOfStock (compute_stats store) =
     totalProducts (compute_stats store)"
  by (simp add: compute_stats_def sum_length_filter_compl)

text \<open>
  C10 states that in the statistics \<^verbatim>\<open>inStock + outOfStock = totalProducts\<close> and that the
  category counters add up to \<^verbatim>\<open>totalProducts\<close>. The first holds (lemma
  \<open>stats_stock_partition\<close>); the second holds under the condition of lemma
  \<open>stats_counters_add_up\<close> and fails without it, by the defect of C9: after creating two
  records of category \<open>toString\<close> there are 5 records and the counters add up to 4.
\<close>

theorem stats_counters_fall_short:
  "totalProducts (compute_stats (fst (serve (fst (serve seed ''uuid-1'' (create (tablet ''toString''))))
                                   ''uuid-2'' (create (tablet ''toString''))))) = 5
   \<and> count_sum (categories (compute_stats (fst (serve (fst (serve seed ''uuid-1'' (create (tablet ''toString''))))
                                   ''uuid-2'' (create (tablet ''toString'')))))) = 4"
proof -
  have "compute_stats (fst (serve (fst (serve seed ''uuid-1'' (create (tablet ''toString''))))
                         ''uuid-2'' (create (tablet ''toString'')))) =
          \<lparr>totalProducts = 5, inStock = 4, outOfStock = 1,
           categories = fmap_of_list
             [(''electronics'', Count 2), (''kitchen'', Count 1), (''toString'', Count 1)]\<rparr>"
    by code_simp
  then show ?thesis
    by (simp add: count_sum_def fmdom'_alt_def)
qed

subsection \<open>Filters\<close>

text \<open>
  C6 states that every supplied \<^verbatim>\<open>inStock\<close> value, the empty string included, is parsed
  to a boolean and filters. The handler guards the filter with \<^verbatim>\<open>if (req.query.inStock)\<close>,
  and the empty string is falsy: on the initial array \<open>?inStock=\<close> returns all three
  records where the claim keeps only the one that is out of stock.
\<close>

theorem stock_filter_empty_value:
  "stock_filter (Some '''') seed = seed \<and> spec_stock_filter (Some '''') seed = [last seed]"
  by code_simp

text \<open>
  C6 as amended: every non-empty supplied value filters as specified (\<open>true\<close> in any case
  keeps the records in stock, any other non-empty value those out of stock); an absent or
  empty parameter applies no filtering.
\<close>

theorem stock_filter_nonempty:
  "(v \<noteq> [] \<longrightarrow> stock_filter (Some v) xs = spec_stock_filter (Some v) xs)
   \<and> stock_filter (Some []) xs = xs
   \<and> stock_filter None xs = xs"
  by (simp add: stock_filter_def spec_stock_filter_def)

theorem stock_filter_nonempty_witness:
  "''TRUE'' \<noteq> [] \<and> stock_filter (Some ''TRUE'') seed = spec_stock_filter (Some ''TRUE'') seed
   \<and> spec_stock_filter (Some ''TRUE'') seed = take 2 seed
   \<and> ''yes'' \<noteq> [] \<and> stock_filter (Some ''yes'') seed = spec_stock_filter (Some ''yes'') seed
   \<and> spec_stock_filter (Some ''yes'') seed = [last seed]"
proof -
  have "spec_stock_filter (Some ''TRUE'') seed = take 2 seed"
    and "spec_stock_filter (Some ''yes'') seed = [last seed]"
    by code_simp+
  then show ?thesis
    using stock_filter_nonempty[of "''TRUE''" seed] stock_filter_nonempty[of "''yes''" seed]
    by simp
qed

text \<open>
  C8: on every array of validated records, filtering by category and then by stock gives
  the same list as filtering by stock and then by category (and the category filter does
  not throw); two category values that agree up to case filter alike, in particular
  \<open>Electronics\<close> and \<open>electronics\<close>.
\<close>

theorem filters_commute:
  assumes "valid_store store"
  shows "(\<exists>kept. category_filter c store = Inr kept
            \<and> category_filter c (stock_filter s store) = Inr (stock_filter s kept))
       \<and> (toLowerCase c1 = toLowerCase c2 \<longrightarrow>
            category_filter (Some c1) store = category_filter (Some c2) store)
       \<and> category_filter (Some ''Electronics'') store = category_filter (Some ''electronics'') store"
proof (intro conjI impI)
  show "\<exists>kept. category_filter c store = Inr kept
            \<and> category_filter c (stock_filter s store) = Inr (stock_filter s kept)"
    using category_filter_valid[OF assms, of c]
      category_filter_valid[OF valid_store_stock_filter[OF assms], of c s]
    by (auto simp: stock_filter_filter split: option.splits)
next
  assume "toLowerCase c1 = toLowerCase c2"
  moreover from this have "c1 = [] \<longleftrightarrow> c2 = []"
    by (metis toLowerCase_Nil)
  ultimately show "category_filter (Some c1) store = category_filter (Some c2) store"
    by (simp add: category_filter_def)
next
  have "toLowerCase ''Electronics'' = toLowerCase ''electronics''"
    by (simp add: toLowerCase_def lower_char_def)
  then show "category_filter (Some ''Electronics'') store = category_filter (Some ''electronics'') store"
    by (simp add: category_filter_def)
qed


theorem filters_commute_witness:
  "valid_store seed
   \<and> (\<exists>kept. category_filter (Some ''Electronics'') seed = Inr kept
         \<and> category_filter (Some ''Electronics'') (stock_filter (Some ''true'') seed) =
             Inr (stock_filter (Some ''true'') kept))
   \<and> toLowerCase ''KITCHEN'' = toLowerCase ''Kitchen''
   \<and> category_filter (Some ''KITCHEN'') seed = category_filter (Some ''Kitchen'') seed"
proof -
  have v: "valid_store seed" by code_simp
  have l: "toLowerCase ''KITCHEN'' = toLowerCase ''Kitchen''" by code_simp
  show ?thesis
    using v l filters_commute[OF v, of "Some ''Electronics''" "Some ''true''" "''KITCHEN''" "''Kitchen''"]
    by blast
qed

subsection \<open>Pagination\<close>









subsection \<open>Rejected writes\<close>

text \<open>
  C7: for every array, a \<open>POST /api/products\<close> request whose \<open>x-api-key\<close> header is missing
  or is not the secret is answered 401 (\<open>AuthError\<close>), and one with the right header whose
  payload fails validation is answered 400 (\<open>ValidationError\<close>); in both cases the array
  is left as it was. A payload whose price is a number not above 0 fails validation.
\<close>

theorem create_rejected_store_unchanged:
  assumes "meth req = POST" and "match_path [Lit ''api'', Lit ''products''] (url req) = Some ps"
  shows "(headers req ''x-api-key'' \<noteq> Some ''secret-api-key'' \<longrightarrow>
            serve store uuid req =
              (store, \<lparr>status = 401,
                       payload = Json_error ''AuthError'' ''Invalid or missing API key'' 401\<rparr>))
       \<and> (headers req ''x-api-key'' = Some ''secret-api-key''
            \<and> validation_failure (body req) = Some msg \<longrightarrow>
            serve store uuid req =
              (store, \<lparr>status = 400, payload = Json_error ''ValidationError'' msg 400\<rparr>))
       \<and> (fmlookup (body req) ''price'' = Some (JNum r) \<and> r \<le> 0 \<longrightarrow>
            validation_failure (body req) \<noteq> None)"
proof (intro conjI impI)
  assume "headers req ''x-api-key'' \<noteq> Some ''secret-api-key''"
  then show "serve store uuid req =
              (store, \<lparr>status = 401,
                       payload = Json_error ''AuthError'' ''Invalid or missing API key'' 401\<rparr>)"
    using assms by (cases "headers req ''x-api-key''") (simp_all add: serve_def app_def handler_defs)
next
  assume "headers req ''x-api-key'' = Some ''secret-api-key'' \<and> validation_failure (body req) = Some msg"
  then show "serve store uuid req =
              (store, \<lparr>status = 400, payload = Json_error ''ValidationError'' msg 400\<rparr>)"
    using assms validation_failure_message[of "body req" msg] by (simp add: serve_def app_def handler_defs)
next
  assume "fmlookup (body req) ''price'' = Some (JNum r) \<and> r \<le> 0"
  then show "validation_failure (body req) \<noteq> None"
    by (simp add: validation_failure_def)
qed


theorem create_rejected_store_unchanged_witness:
  "meth (example_request POST [''api'', ''products'']) = POST
   \<and> headers (example_request POST [''api'', ''products'']) ''x-api-key'' \<noteq> Some ''secret-api-key''
   \<and> serve seed ''uuid-1'' (example_request POST [''api'', ''products'']) =
       (seed, \<lparr>status = 401, payload = Json_error ''AuthError'' ''Invalid or missing API key'' 401\<rparr>)
   \<and> fmlookup (body (create (fmupd ''price'' (JNum (- 5)) (tablet ''electronics'')))) ''price'' = Some (JNum (- 5))
   \<and> serve seed ''uuid-1'' (create (fmupd ''price'' (JNum (- 5)) (tablet ''electronics''))) =
       (seed, \<lparr>status = 400,
                payload = Json_error ''ValidationError''
                            ''Product price is required and must be a positive number'' 400\<rparr>)"
proof -
  have m: "match_path [Lit ''api'', Lit ''products''] [''api'', ''products''] = Some Map.empty"
    by (simp add: toLowerCase_def)
  have f: "validation_failure (fmupd ''price'' (JNum (- 5)) (tablet ''electronics'')) =
             Some ''Product price is required and must be a positive number''"
    by (simp add: validation_failure_def tablet_def)
  show ?thesis
    using create_rejected_store_unchanged[of "example_request POST [''api'', ''products'']" Map.empty seed "''uuid-1''"]
      create_rejected_store_unchanged[of "create (fmupd ''price'' (JNum (- 5)) (tablet ''electronics''))" Map.empty
            seed "''uuid-1''" "''Product price is required and must be a positive number''"] m f
    by (simp add: example_request_def create_def with_key_def)
qed


subsection \<open>Updates\<close>

text \<open>
  C3 states that an update with a partial payload succeeds whenever the merged record is
  valid. The route runs the validation middleware on the payload itself, before the
  handler merges: on the initial array, \<open>PUT /api/products/1\<close> with the payload
  \<open>{price: 1000}\<close> is answered 400 although the merged record passes validation.
\<close>

theorem update_rejects_partial_payload:
  "validation_failure (hd seed ++\<^sub>f fmap_of_list [(''price'', JNum 1000)]) = None
   \<and> serve seed ''uuid-1''
       (update ''1'' (fmap_of_list [(''price'', JNum 1000)])) =
       (seed, \<lparr>status = 400,
                payload = Json_error ''ValidationError''
                            ''Product name is required and must be a string'' 400\<rparr>)"
  by code_simp


text \<open>
  C3 as amended: for every \<open>PUT /api/products/:id\<close> request with the right key, a payload
  that itself passes validation and the \<open>id\<close> of a stored record, the record (the first
  with that \<open>id\<close>) is replaced in place by the merge of the stored record with the
  payload, with \<open>id\<close> set to the one of the path; the response is 200 with the updated
  record, which passes validation again.
\<close>

theorem update_merges_valid_payload:
  assumes "meth req = PUT"
    and "match_path [Lit ''api'', Lit ''products'', Param ''id''] (url req) = Some ps"
    and "ps ''id'' = Some ident"
    and "headers req ''x-api-key'' = Some ''secret-api-key''"
    and "validation_failure (body req) = None"
    and "findIndex (has_id (Some ident)) store = Some i"
  shows "serve store uuid req =
           (store[i := fmupd ''id'' (JStr ident) (store ! i ++\<^sub>f body req)],
            \<lparr>status = 200,
             payload = Json_product (fmupd ''id'' (JStr ident) (store ! i ++\<^sub>f body req))\<rparr>)
       \<and> i < length store
       \<and> fmlookup (store ! i) ''id'' = Some (JStr ident)
       \<and> validation_failure (fmupd ''id'' (JStr ident) (store ! i ++\<^sub>f body req)) = None"
proof -
  have "serve store uuid req =
           (store[i := fmupd ''id'' (JStr ident) (store ! i ++\<^sub>f body req)],
            \<lparr>status = 200,
             payload = Json_product (fmupd ''id'' (JStr ident) (store ! i ++\<^sub>f body req))\<rparr>)"
    using assms by (simp add: serve_def app_def handler_defs updateProduct_def Let_def)
  moreover have "i < length store \<and> fmlookup (store ! i) ''id'' = Some (JStr ident)"
    using findIndex_Some[OF assms(6)] by (simp add: has_id_def)
  moreover have "validation_failure (fmupd ''id'' (JStr ident) (store ! i ++\<^sub>f body req)) = None"
    using assms(5) by (simp add: validation_failure_id validation_failure_add)
  ultimately show ?thesis by simp
qed


theorem update_merges_valid_payload_witness:
  "meth (update ''2'' (tablet ''electronics'')) = PUT
   \<and> headers (update ''2'' (tablet ''electronics'')) ''x-api-key'' = Some ''secret-api-key''
   \<and> validation_failure (body (update ''2'' (tablet ''electronics''))) = None
   \<and> findIndex (has_id (Some ''2'')) seed = Some 1
   \<and> serve seed ''uuid-1'' (update ''2'' (tablet ''electronics'')) =
       (seed[1 := fmupd ''id'' (JStr ''2'') (seed ! 1 ++\<^sub>f tablet ''electronics'')],
        \<lparr>status = 200,
         payload = Json_product (fmupd ''id'' (JStr ''2'') (seed ! 1 ++\<^sub>f tablet ''electronics''))\<rparr>)"
proof -
  have m: "match_path [Lit ''api'', Lit ''products'', Param ''id''] [''api'', ''products'', ''2''] =
             Some [''id'' \<mapsto> ''2'']"
    by (simp add: toLowerCase_def)
  have f: "findIndex (has_id (Some ''2'')) seed = Some 1" by code_simp
  have v: "validation_failure (tablet ''electronics'') = None" by code_simp
  show ?thesis
    using update_merges_valid_payload[of "update ''2'' (tablet ''electronics'')"
            "[''id'' \<mapsto> ''2'']" "''2''" seed 1 "''uuid-1''"] m f v
    by (simp add: update_def with_key_def example_request_def)
qed

end
